theory Spec2Isabelle
  imports Main "HOL-Library.Word" "HOL-Library.AList"
begin

section \<open>The tracing allocator of source/memtrace.c\<close>

text \<open>
  The embedding is sequential: one call of the facade runs to its end before the next
  starts, so every state between two calls is a quiescent point and the mutex is left out.
  \<open>size_t\<close> and \<open>void *\<close> are words of one width \<open>'w\<close>; the records are polymorphic in the
  type \<open>'s\<close> of their size and pointer fields and are used at \<open>'s = 'w word\<close> throughout.
\<close>

subsection \<open>Collaborators that are not part of the source file\<close>

text \<open>
  Modelled from the spec: the enumeration \<open>aws_mem_trace_level\<close> is declared in a header that
  is not among the sources. It is three-valued and ordered by increasing fidelity:
  NONE, BYTES, STACKS.
\<close>

datatype aws_mem_trace_level = AWS_MEMTRACE_NONE | AWS_MEMTRACE_BYTES | AWS_MEMTRACE_STACKS

fun level_rank :: "aws_mem_trace_level \<Rightarrow> nat" where
  "level_rank AWS_MEMTRACE_NONE = 0"
| "level_rank AWS_MEMTRACE_BYTES = 1"
| "level_rank AWS_MEMTRACE_STACKS = 2"

text \<open>
  Modelled from the spec: the status codes of the library (header not among the sources).
\<close>

definition AWS_OP_SUCCESS :: int where
  "AWS_OP_SUCCESS = 0"

definition AWS_OP_ERR :: int where
  "AWS_OP_ERR = - 1"

text \<open>The two ways a call can end without returning.\<close>

datatype abort =
    Fatal_Assert          \<comment> \<open>\<open>AWS_FATAL_ASSERT\<close> failed\<close>
  | Copy_Out_Of_Bounds    \<comment> \<open>\<open>memcpy\<close> past the end of its buffers\<close>

text \<open>
  Modelled from the spec: the identity of an allocator object. The bookkeeping allocator is
  either the process default or one supplied by the caller.
\<close>

datatype allocator_id = Default_Allocator | Supplied_Allocator nat

definition aws_default_allocator :: allocator_id where
  "aws_default_allocator = Default_Allocator"

text \<open>
  Modelled from the spec: the inner allocator \<open>U\<close> with its four operations
  \<open>acquire(n) -> addr\<close>, \<open>release(addr)\<close>, \<open>calloc(k, n) -> addr\<close> and
  \<open>realloc(&addr, old, new)\<close>. It is an arbitrary deterministic machine over a state \<open>'u\<close>
  of its own; a reallocation either fails (\<open>None\<close>) or yields the address now held.
\<close>

record ('s, 'u) aws_allocator =
  mem_acquire :: "'u \<Rightarrow> 's \<Rightarrow> 's \<times> 'u"
  mem_release :: "'u \<Rightarrow> 's \<Rightarrow> 'u"
  mem_realloc :: "'u \<Rightarrow> 's \<Rightarrow> 's \<Rightarrow> 's \<Rightarrow> 's option \<times> 'u"
  mem_calloc :: "'u \<Rightarrow> 's \<Rightarrow> 's \<Rightarrow> 's \<times> 'u"

definition aws_mem_acquire :: "('s, 'u) aws_allocator \<Rightarrow> 'u \<Rightarrow> 's \<Rightarrow> 's \<times> 'u" where
  "aws_mem_acquire a u n = mem_acquire a u n"

definition aws_mem_release :: "('s, 'u) aws_allocator \<Rightarrow> 'u \<Rightarrow> 's \<Rightarrow> 'u" where
  "aws_mem_release a u p = mem_release a u p"

definition aws_mem_calloc :: "('s, 'u) aws_allocator \<Rightarrow> 'u \<Rightarrow> 's \<Rightarrow> 's \<Rightarrow> 's \<times> 'u" where
  "aws_mem_calloc a u num n = mem_calloc a u num n"

text \<open>\<open>aws_mem_realloc\<close> returns a status and leaves the new address in \<open>*ptr\<close>.\<close>

definition aws_mem_realloc ::
  "('s, 'u) aws_allocator \<Rightarrow> 'u \<Rightarrow> 's \<Rightarrow> 's \<Rightarrow> 's \<Rightarrow> int \<times> 's \<times> 'u" where
  "aws_mem_realloc a u p oldsize newsize =
     (case mem_realloc a u p oldsize newsize of
        (None, u') \<Rightarrow> (AWS_OP_ERR, p, u')
      | (Some q, u') \<Rightarrow> (AWS_OP_SUCCESS, q, u'))"

text \<open>
  Modelled from the spec: the hash table of the library (its implementation is not among the
  sources). A table is the list of its entries. Looking a key up always succeeds and yields
  the entry or nothing; insert-or-find reports whether the entry was created; a plain
  insert of a key that is already present is the invariant violation the spec names
  (``Duplicate keys are a fatal invariant violation''), reported as \<open>AWS_OP_ERR\<close> to the
  assertion around the call. A table that was only zeroed has no entries.
\<close>

type_synonym ('k, 'v) aws_hash_table = "('k \<times> 'v) list"

definition aws_hash_table_init :: "('k, 'v) aws_hash_table" where
  "aws_hash_table_init = []"

definition aws_hash_table_find ::
  "('k, 'v) aws_hash_table \<Rightarrow> 'k \<Rightarrow> int \<times> ('k \<times> 'v) option" where
  "aws_hash_table_find tbl key = (AWS_OP_SUCCESS, List.find (\<lambda>e. fst e = key) tbl)"

definition aws_hash_table_put ::
  "('k, 'v) aws_hash_table \<Rightarrow> 'k \<Rightarrow> 'v \<Rightarrow> int \<times> ('k, 'v) aws_hash_table" where
  "aws_hash_table_put tbl key v =
     (if key \<in> set (map fst tbl) then (AWS_OP_ERR, tbl)
      else (AWS_OP_SUCCESS, (key, v) # tbl))"

text \<open>A created entry holds the null value until the caller stores one.\<close>

definition aws_hash_table_create ::
  "('k, 'v option) aws_hash_table \<Rightarrow> 'k \<Rightarrow> int \<times> ('k, 'v option) aws_hash_table \<times> int" where
  "aws_hash_table_create tbl key =
     (if key \<in> set (map fst tbl) then (AWS_OP_SUCCESS, tbl, 0)
      else (AWS_OP_SUCCESS, (key, None) # tbl, 1))"

definition aws_hash_table_remove_element ::
  "('k, 'v) aws_hash_table \<Rightarrow> 'k \<times> 'v \<Rightarrow> int \<times> ('k, 'v) aws_hash_table" where
  "aws_hash_table_remove_element tbl e = (AWS_OP_SUCCESS, AList.delete (fst e) tbl)"

definition aws_hash_table_get_entry_count :: "('k, 'v) aws_hash_table \<Rightarrow> nat" where
  "aws_hash_table_get_entry_count tbl = length tbl"

text \<open>
  Modelled from the spec: what one call sees of its platform. The stack walker
  (\<open>capture(buf, max) -> actual_depth\<close>) delivers the frames it can see, at most \<open>max\<close> of
  them and possibly none; the clock gives the seconds of \<open>time(NULL)\<close>; the fingerprint is
  the library's hash of the captured frame pointers.
\<close>

record 's environment =
  call_stack :: "'s list"
  wall_clock :: int
  hash_byte_cursor_ptr :: "'s list \<Rightarrow> 64 word"

definition aws_backtrace :: "'w::len word environment \<Rightarrow> 'w word \<Rightarrow> 'w word list" where
  "aws_backtrace env max_frames = take (unat max_frames) (call_stack env)"

definition sizeof_ptr :: "'w::len word" where
  "sizeof_ptr = of_nat (LENGTH('w) div 8)"

text \<open>
  \<open>memcpy\<close> of \<open>nbytes\<close> bytes of frame pointers, starting \<open>skip\<close> pointers into the source,
  into a block with room for \<open>room\<close> pointers. The source array has \<open>skip + room\<close> slots, so
  one bound covers both buffers.
\<close>

definition memcpy_frames ::
  "'w::len word \<Rightarrow> 'w word list \<Rightarrow> nat \<Rightarrow> 'w word \<Rightarrow> abort + 'w word list" where
  "memcpy_frames room src skip nbytes =
     (if unat nbytes \<le> unat room * unat (sizeof_ptr :: 'w word)
      then Inr (take (unat nbytes div unat (sizeof_ptr :: 'w word)) (drop skip src))
      else Inl Copy_Out_Of_Bounds)"

subsection \<open>The records of the tracer\<close>

text \<open>
  \<open>struct alloc_info\<close> and \<open>struct stack_trace\<close>. The field \<open>owner\<close> is not in the C
  structs: it remembers which allocator the block was obtained from, so that the allocator
  a block is released through can be compared with it.
\<close>

record 's alloc_info =
  size_bytes :: "'s"
  time :: int
  stack :: "64 word"
  owner :: allocator_id

record 's stack_trace =
  depth :: "'s"
  frames :: "'s list"
  trace_owner :: allocator_id

record ('s, 'u) alloc_tracer =
  allocator :: "('s, 'u) aws_allocator"
  system_allocator :: allocator_id
  level :: aws_mem_trace_level
  frames_per_stack :: "'s"
  allocated :: "'s"
  allocs :: "('s, 's alloc_info) aws_hash_table"
  stacks :: "('s, 's stack_trace option) aws_hash_table"

text \<open>
  The memory outside the tracer: the state of the inner allocator, and the log of every
  release of a bookkeeping block, as (allocator released through, allocator obtained from).
\<close>

record 'u memory =
  inner :: "'u"
  released :: "(allocator_id \<times> allocator_id) list"

definition FRAMES_TO_SKIP :: nat where
  "FRAMES_TO_SKIP = 2"

subsection \<open>Construction\<close>

definition s_destroy_alloc :: "'u memory \<Rightarrow> 's alloc_info \<Rightarrow> 'u memory" where
  "s_destroy_alloc mem alloc =
     (let a = aws_default_allocator
      in mem\<lparr>released := released mem @ [(a, owner alloc)]\<rparr>)"

definition s_destroy_stacktrace :: "'u memory \<Rightarrow> 's stack_trace \<Rightarrow> 'u memory" where
  "s_destroy_stacktrace mem st =
     (let a = aws_default_allocator
      in mem\<lparr>released := released mem @ [(a, trace_owner st)]\<rparr>)"

definition s_alloc_tracer_init ::
  "'w::len word environment \<Rightarrow> ('w word, 'u) alloc_tracer \<Rightarrow> ('w word, 'u) aws_allocator \<Rightarrow>
   allocator_id \<Rightarrow> aws_mem_trace_level \<Rightarrow> 'w word \<Rightarrow> ('w word, 'u) alloc_tracer" where
  "s_alloc_tracer_init env tracer a sys_a lvl fps =
     (let lvl1 = (if aws_backtrace env 1 = []
                  then (if level_rank lvl > level_rank AWS_MEMTRACE_BYTES
                        then AWS_MEMTRACE_BYTES else lvl)
                  else lvl);
          t1 = tracer\<lparr>allocator := a, system_allocator := sys_a, level := lvl1\<rparr>;
          t2 = (if level_rank (level t1) \<ge> level_rank AWS_MEMTRACE_BYTES
                then t1\<lparr>allocated := 0, allocs := aws_hash_table_init\<rparr>
                else t1)
      in if level t2 = AWS_MEMTRACE_STACKS
         then (let fps1 = (if fps > 128 then 128 else fps)
               in t2\<lparr>frames_per_stack := (if fps1 \<noteq> 0 then fps1 else 8),
                      stacks := aws_hash_table_init\<rparr>)
         else t2)"

text \<open>
  \<open>aws_mem_tracer_new\<close>: the tracer is zeroed (\<open>AWS_ZERO_STRUCT\<close>) and then initialised.
  The facade is the tracer together with the fixed table of the four \<open>s_trace_mem\<close>
  functions below.
\<close>

definition aws_mem_tracer_new ::
  "'w::len word environment \<Rightarrow> ('w word, 'u) aws_allocator \<Rightarrow> allocator_id option \<Rightarrow>
   aws_mem_trace_level \<Rightarrow> 'w word \<Rightarrow> ('w word, 'u) alloc_tracer" where
  "aws_mem_tracer_new env a sys_a lvl fps =
     (let sys_a1 = (case sys_a of None \<Rightarrow> aws_default_allocator | Some b \<Rightarrow> b);
          zeroed = \<lparr>allocator = a, system_allocator = sys_a1, level = AWS_MEMTRACE_NONE,
                    frames_per_stack = 0, allocated = 0, allocs = [], stacks = []\<rparr>
      in s_alloc_tracer_init env zeroed a sys_a1 lvl fps)"

subsection \<open>Track and untrack\<close>

text \<open>
  The block of \<open>s_alloc_tracer_track\<close> that runs at level STACKS: capture, fingerprint,
  insert-or-find in the registry, and on insert the copy of the frames after the skipped
  prefix.
\<close>

definition track_stack ::
  "'w::len word environment \<Rightarrow> ('w word, 'u) alloc_tracer \<Rightarrow> 'w word alloc_info \<Rightarrow>
   abort + (('w word, 'u) alloc_tracer \<times> 'w word alloc_info)" where
  "track_stack env tracer alloc =
     (let stack_frames = aws_backtrace env (of_nat FRAMES_TO_SKIP + frames_per_stack tracer);
          stack_depth = (of_nat (length stack_frames) :: 'w word)
      in if stack_depth = 0 then Inr (tracer, alloc)
         else
           (let stack_id = hash_byte_cursor_ptr env stack_frames;
                alloc1 = alloc\<lparr>stack := stack_id\<rparr>;
                key = (ucast stack_id :: 'w word)
            in case aws_hash_table_create (stacks tracer) key of
                 (rc, tbl, was_created) \<Rightarrow>
                   if rc \<noteq> AWS_OP_SUCCESS then Inl Fatal_Assert
                   else if was_created \<noteq> 0 then
                     (case memcpy_frames (frames_per_stack tracer) stack_frames FRAMES_TO_SKIP
                             ((stack_depth - of_nat FRAMES_TO_SKIP) * sizeof_ptr) of
                        Inl e \<Rightarrow> Inl e
                      | Inr fs \<Rightarrow>
                          Inr (tracer\<lparr>stacks :=
                                 AList.update key
                                   (Some \<lparr>depth = stack_depth - of_nat FRAMES_TO_SKIP,
                                          frames = fs,
                                          trace_owner = system_allocator tracer\<rparr>) tbl\<rparr>,
                               alloc1))
                   else Inr (tracer\<lparr>stacks := tbl\<rparr>, alloc1)))"

definition s_alloc_tracer_track ::
  "'w::len word environment \<Rightarrow> ('w word, 'u) alloc_tracer \<Rightarrow> 'w word \<Rightarrow> 'w word \<Rightarrow>
   abort + ('w word, 'u) alloc_tracer" where
  "s_alloc_tracer_track env tracer p n =
     (if level tracer = AWS_MEMTRACE_NONE then Inr tracer
      else
        (let t1 = tracer\<lparr>allocated := allocated tracer + n\<rparr>;
             alloc = \<lparr>size_bytes = n, time = wall_clock env, stack = 0,
                      owner = system_allocator tracer\<rparr>
         in case (if level t1 = AWS_MEMTRACE_STACKS then track_stack env t1 alloc
                  else Inr (t1, alloc)) of
              Inl e \<Rightarrow> Inl e
            | Inr (t2, alloc2) \<Rightarrow>
                (case aws_hash_table_put (allocs t2) p alloc2 of
                   (rc, tbl) \<Rightarrow>
                     if rc = AWS_OP_SUCCESS then Inr (t2\<lparr>allocs := tbl\<rparr>)
                     else Inl Fatal_Assert)))"

definition s_alloc_tracer_untrack ::
  "('w::len word, 'u) alloc_tracer \<Rightarrow> 'u memory \<Rightarrow> 'w word \<Rightarrow>
   abort + (('w word, 'u) alloc_tracer \<times> 'u memory)" where
  "s_alloc_tracer_untrack tracer mem p =
     (if level tracer = AWS_MEMTRACE_NONE then Inr (tracer, mem)
      else
        (case aws_hash_table_find (allocs tracer) p of
           (rc, item) \<Rightarrow>
             if rc \<noteq> AWS_OP_SUCCESS then Inl Fatal_Assert
             else
               (case item of
                  None \<Rightarrow> Inr (tracer, mem)
                | Some e \<Rightarrow>
                    if fst e \<noteq> p then Inl Fatal_Assert
                    else
                      (let alloc = snd e;
                           t1 = tracer\<lparr>allocated := allocated tracer - size_bytes alloc\<rparr>;
                           mem1 = s_destroy_alloc mem alloc
                       in case aws_hash_table_remove_element (allocs t1) e of
                            (rc2, tbl) \<Rightarrow>
                              if rc2 = AWS_OP_SUCCESS then Inr (t1\<lparr>allocs := tbl\<rparr>, mem1)
                              else Inl Fatal_Assert))))"

subsection \<open>The four operations of the facade\<close>

definition s_trace_mem_acquire ::
  "'w::len word environment \<Rightarrow> ('w word, 'u) alloc_tracer \<Rightarrow> 'u memory \<Rightarrow> 'w word \<Rightarrow>
   abort + ('w word \<times> ('w word, 'u) alloc_tracer \<times> 'u memory)" where
  "s_trace_mem_acquire env tracer mem n =
     (case aws_mem_acquire (allocator tracer) (inner mem) n of
        (p, u1) \<Rightarrow>
          (case s_alloc_tracer_track env tracer p n of
             Inl e \<Rightarrow> Inl e
           | Inr t1 \<Rightarrow> Inr (p, t1, mem\<lparr>inner := u1\<rparr>)))"

definition s_trace_mem_release ::
  "('w::len word, 'u) alloc_tracer \<Rightarrow> 'u memory \<Rightarrow> 'w word \<Rightarrow>
   abort + (('w word, 'u) alloc_tracer \<times> 'u memory)" where
  "s_trace_mem_release tracer mem p =
     (case s_alloc_tracer_untrack tracer mem p of
        Inl e \<Rightarrow> Inl e
      | Inr (t1, mem1) \<Rightarrow>
          Inr (t1, mem1\<lparr>inner := aws_mem_release (allocator t1) (inner mem1) p\<rparr>))"

definition s_trace_mem_realloc ::
  "'w::len word environment \<Rightarrow> ('w word, 'u) alloc_tracer \<Rightarrow> 'u memory \<Rightarrow>
   'w word \<Rightarrow> 'w word \<Rightarrow> 'w word \<Rightarrow>
   abort + ('w word \<times> ('w word, 'u) alloc_tracer \<times> 'u memory)" where
  "s_trace_mem_realloc env tracer mem p old_size new_size =
     (case aws_mem_realloc (allocator tracer) (inner mem) p old_size new_size of
        (rc, new_ptr, u1) \<Rightarrow>
          if rc \<noteq> AWS_OP_SUCCESS then Inl Fatal_Assert
          else
            (case s_alloc_tracer_untrack tracer (mem\<lparr>inner := u1\<rparr>) p of
               Inl e \<Rightarrow> Inl e
             | Inr (t1, mem1) \<Rightarrow>
                 (case s_alloc_tracer_track env t1 new_ptr new_size of
                    Inl e \<Rightarrow> Inl e
                  | Inr t2 \<Rightarrow> Inr (new_ptr, t2, mem1))))"

definition s_trace_mem_calloc ::
  "'w::len word environment \<Rightarrow> ('w word, 'u) alloc_tracer \<Rightarrow> 'u memory \<Rightarrow>
   'w word \<Rightarrow> 'w word \<Rightarrow>
   abort + ('w word \<times> ('w word, 'u) alloc_tracer \<times> 'u memory)" where
  "s_trace_mem_calloc env tracer mem num n =
     (case aws_mem_calloc (allocator tracer) (inner mem) num n of
        (p, u1) \<Rightarrow>
          (case s_alloc_tracer_track env tracer p (num * n) of
             Inl e \<Rightarrow> Inl e
           | Inr t1 \<Rightarrow> Inr (p, t1, mem\<lparr>inner := u1\<rparr>)))"

subsection \<open>Queries and teardown\<close>

definition aws_mem_tracer_bytes :: "('w::len word, 'u) alloc_tracer \<Rightarrow> 'w word" where
  "aws_mem_tracer_bytes tracer = allocated tracer"

definition aws_mem_tracer_count :: "('w::len word, 'u) alloc_tracer \<Rightarrow> nat" where
  "aws_mem_tracer_count tracer = aws_hash_table_get_entry_count (allocs tracer)"

text \<open>
  \<open>aws_hash_table_clean_up\<close> hands every value to the destructor the table was
  initialised with.
\<close>

fun destroy_stack_values ::
  "'u memory \<Rightarrow> ('s, 's stack_trace option) aws_hash_table \<Rightarrow> 'u memory" where
  "destroy_stack_values mem [] = mem"
| "destroy_stack_values mem ((k, None) # es) = destroy_stack_values mem es"
| "destroy_stack_values mem ((k, Some st) # es) =
     destroy_stack_values (s_destroy_stacktrace mem st) es"

definition aws_mem_tracer_destroy ::
  "('w::len word, 'u) alloc_tracer \<Rightarrow> 'u memory \<Rightarrow> ('w word, 'u) aws_allocator \<times> 'u memory" where
  "aws_mem_tracer_destroy tracer mem =
     (let a = allocator tracer;
          mem1 = foldl s_destroy_alloc mem (map snd (allocs tracer));
          mem2 = destroy_stack_values mem1 (stacks tracer)
      in (a, mem2))"

subsection \<open>Sequences of calls\<close>

text \<open>
  A client is a list of calls, each with what the platform shows during that call.
  \<open>trace_call\<close> sends one call through the facade; \<open>inner_call\<close> sends it to the inner
  allocator directly. A call yields an address, nothing, or (inner allocator only) the
  report that a reallocation failed.
\<close>

datatype 's call =
    Acquire 's
  | Calloc 's 's
  | Release 's
  | Realloc 's 's 's

datatype 's outcome = Address 's | Done | Realloc_Failed

fun trace_call ::
  "'w::len word environment \<Rightarrow> ('w word, 'u) alloc_tracer \<Rightarrow> 'u memory \<Rightarrow> 'w word call \<Rightarrow>
   abort + ('w word outcome \<times> ('w word, 'u) alloc_tracer \<times> 'u memory)" where
  "trace_call env tracer mem (Acquire n) =
     (case s_trace_mem_acquire env tracer mem n of
        Inl e \<Rightarrow> Inl e | Inr (p, t1, mem1) \<Rightarrow> Inr (Address p, t1, mem1))"
| "trace_call env tracer mem (Calloc num n) =
     (case s_trace_mem_calloc env tracer mem num n of
        Inl e \<Rightarrow> Inl e | Inr (p, t1, mem1) \<Rightarrow> Inr (Address p, t1, mem1))"
| "trace_call env tracer mem (Release p) =
     (case s_trace_mem_release tracer mem p of
        Inl e \<Rightarrow> Inl e | Inr (t1, mem1) \<Rightarrow> Inr (Done, t1, mem1))"
| "trace_call env tracer mem (Realloc p old_size new_size) =
     (case s_trace_mem_realloc env tracer mem p old_size new_size of
        Inl e \<Rightarrow> Inl e | Inr (q, t1, mem1) \<Rightarrow> Inr (Address q, t1, mem1))"

fun trace_calls ::
  "('w::len word, 'u) alloc_tracer \<Rightarrow> 'u memory \<Rightarrow> ('w word environment \<times> 'w word call) list \<Rightarrow>
   abort + ('w word outcome list \<times> ('w word, 'u) alloc_tracer \<times> 'u memory)" where
  "trace_calls tracer mem [] = Inr ([], tracer, mem)"
| "trace_calls tracer mem ((env, c) # cs) =
     (case trace_call env tracer mem c of
        Inl e \<Rightarrow> Inl e
      | Inr (r, t1, mem1) \<Rightarrow>
          (case trace_calls t1 mem1 cs of
             Inl e \<Rightarrow> Inl e
           | Inr (rs, t2, mem2) \<Rightarrow> Inr (r # rs, t2, mem2)))"

fun inner_call :: "('s, 'u) aws_allocator \<Rightarrow> 'u \<Rightarrow> 's call \<Rightarrow> 's outcome \<times> 'u" where
  "inner_call a u (Acquire n) = (case aws_mem_acquire a u n of (p, u1) \<Rightarrow> (Address p, u1))"
| "inner_call a u (Calloc num n) =
     (case aws_mem_calloc a u num n of (p, u1) \<Rightarrow> (Address p, u1))"
| "inner_call a u (Release p) = (Done, aws_mem_release a u p)"
| "inner_call a u (Realloc p old_size new_size) =
     (case aws_mem_realloc a u p old_size new_size of
        (rc, q, u1) \<Rightarrow> (if rc = AWS_OP_SUCCESS then Address q else Realloc_Failed, u1))"

fun inner_calls :: "('s, 'u) aws_allocator \<Rightarrow> 'u \<Rightarrow> 's call list \<Rightarrow> 's outcome list \<times> 'u" where
  "inner_calls a u [] = ([], u)"
| "inner_calls a u (c # cs) =
     (case inner_call a u c of
        (r, u1) \<Rightarrow> (case inner_calls a u1 cs of (rs, u2) \<Rightarrow> (r # rs, u2)))"

subsection \<open>The invariant of the tracer\<close>

text \<open>
  The counter of live bytes is the sum, in \<open>size_t\<close> arithmetic, of the sizes recorded in
  the allocation map, and no address is recorded twice.
\<close>

definition tracer_inv :: "('w::len word, 'u) alloc_tracer \<Rightarrow> bool" where
  "tracer_inv tracer \<longleftrightarrow>
     allocated tracer = sum_list (map (\<lambda>e. size_bytes (snd e)) (allocs tracer))
     \<and> distinct (map fst (allocs tracer))"

subsection \<open>Concrete inputs\<close>

text \<open>
  Two inner allocators on which the theorems below are exercised. The first hands out
  consecutive addresses and grows a block by moving it; the second has no memory left:
  it returns the null address and reports failure for every reallocation.
\<close>

definition bump_allocator :: "('w::len word, 'w word) aws_allocator" where
  "bump_allocator =
     \<lparr>mem_acquire = (\<lambda>u n. (u, u + n)),
      mem_release = (\<lambda>u p. u),
      mem_realloc = (\<lambda>u p old_size new_size.
                       if new_size \<le> old_size then (Some p, u) else (Some u, u + new_size)),
      mem_calloc = (\<lambda>u num n. (u, u + num * n))\<rparr>"

definition exhausted_allocator :: "('w::len word, unit) aws_allocator" where
  "exhausted_allocator =
     \<lparr>mem_acquire = (\<lambda>u n. (0, u)),
      mem_release = (\<lambda>u p. u),
      mem_realloc = (\<lambda>u p old_size new_size. (None, u)),
      mem_calloc = (\<lambda>u num n. (0, u))\<rparr>"

text \<open>
  Two views of the platform: a call stack four frames deep, and one where the walker
  sees a single frame.
\<close>

definition deep_env :: "64 word environment" where
  "deep_env =
     \<lparr>call_stack = [0x1000, 0x2000, 0x3000, 0x4000],
      wall_clock = 1700000000,
      hash_byte_cursor_ptr = (\<lambda>fs. sum_list fs + 1)\<rparr>"

definition shallow_env :: "64 word environment" where
  "shallow_env =
     \<lparr>call_stack = [0x1000],
      wall_clock = 1700000000,
      hash_byte_cursor_ptr = (\<lambda>fs. sum_list fs + 1)\<rparr>"

definition heap0 :: "64 word memory" where
  "heap0 = \<lparr>inner = 0x10000, released = []\<rparr>"

text \<open>
  Tracers as constructed at levels BYTES and STACKS over the first allocator, and the
  tracer at level BYTES with one live block of 16 bytes at address \<open>0x10000\<close>.
\<close>

definition tracer_bytes :: "(64 word, 64 word) alloc_tracer" where
  "tracer_bytes = aws_mem_tracer_new deep_env bump_allocator None AWS_MEMTRACE_BYTES 0"

definition tracer_stacks :: "(64 word, 64 word) alloc_tracer" where
  "tracer_stacks = aws_mem_tracer_new deep_env bump_allocator None AWS_MEMTRACE_STACKS 0"

definition block16 :: "64 word alloc_info" where
  "block16 = \<lparr>size_bytes = 16, time = 1700000000, stack = 0, owner = Default_Allocator\<rparr>"

definition tracer_one_live :: "(64 word, 64 word) alloc_tracer" where
  "tracer_one_live = tracer_bytes\<lparr>allocated := 16, allocs := [(0x10000, block16)]\<rparr>"

definition heap1 :: "64 word memory" where
  "heap1 = \<lparr>inner = 0x10010, released = []\<rparr>"

text \<open>
  Tracers whose bookkeeping allocator is supplied by the caller and is not the process
  default.
\<close>

definition tracer_supplied :: "(64 word, 64 word) alloc_tracer" where
  "tracer_supplied =
     aws_mem_tracer_new deep_env bump_allocator (Some (Supplied_Allocator 1)) AWS_MEMTRACE_BYTES 0"

definition tracer_supplied_stacks :: "(64 word, 64 word) alloc_tracer" where
  "tracer_supplied_stacks =
     aws_mem_tracer_new deep_env bump_allocator (Some (Supplied_Allocator 1)) AWS_MEMTRACE_STACKS 0"

section \<open>Auxiliary facts\<close>

lemma find_absent: "key \<notin> set (map fst tbl) \<Longrightarrow> List.find (\<lambda>e. fst e = key) tbl = None"
  by (induction tbl) auto

lemma find_present: "key \<in> set (map fst tbl) \<Longrightarrow> \<exists>v. List.find (\<lambda>e. fst e = key) tbl = Some (key, v)"
  by (induction tbl) auto

lemma track_stack_keeps:
  assumes "track_stack env t a = Inr (t', a')"
  shows "allocs t' = allocs t \<and> allocated t' = allocated t \<and> level t' = level t
     \<and> system_allocator t' = system_allocator t \<and> allocator t' = allocator t
     \<and> frames_per_stack t' = frames_per_stack t
     \<and> size_bytes a' = size_bytes a \<and> owner a' = owner a \<and> time a' = time a"
  using assms
  by (auto simp: track_stack_def Let_def aws_hash_table_create_def split: if_splits sum.splits)

lemma track_Inr:
  assumes "s_alloc_tracer_track env t p n = Inr t'" and "level t \<noteq> AWS_MEMTRACE_NONE"
  shows "p \<notin> set (map fst (allocs t)) \<and> allocated t' = allocated t + n
     \<and> (\<exists>r. allocs t' = (p, r) # allocs t \<and> size_bytes r = n \<and> owner r = system_allocator t)
     \<and> level t' = level t \<and> system_allocator t' = system_allocator t \<and> allocator t' = allocator t
     \<and> frames_per_stack t' = frames_per_stack t"
  using assms
  apply (simp add: s_alloc_tracer_track_def Let_def aws_hash_table_put_def AWS_OP_SUCCESS_def AWS_OP_ERR_def split: if_splits sum.splits prod.splits)
   apply (auto dest!: track_stack_keeps)
  done

lemma track_NONE: "level t = AWS_MEMTRACE_NONE \<Longrightarrow> s_alloc_tracer_track env t p n = Inr t"
  by (simp add: s_alloc_tracer_track_def)

lemma track_BYTES_fresh:
  assumes "level t = AWS_MEMTRACE_BYTES" "p \<notin> set (map fst (allocs t))"
  shows "s_alloc_tracer_track env t p n =
     Inr (t\<lparr>allocated := allocated t + n,
            allocs := (p, \<lparr>size_bytes = n, time = wall_clock env, stack = 0,
                           owner = system_allocator t\<rparr>) # allocs t\<rparr>)"
  using assms
  by (simp add: s_alloc_tracer_track_def Let_def aws_hash_table_put_def AWS_OP_SUCCESS_def)

lemma untrack_absent:
  "p \<notin> set (map fst (allocs t)) \<Longrightarrow> s_alloc_tracer_untrack t mem p = Inr (t, mem)"
  by (simp add: s_alloc_tracer_untrack_def aws_hash_table_find_def find_absent AWS_OP_SUCCESS_def)

lemma untrack_present:
  assumes "List.find (\<lambda>e. fst e = p) (allocs t) = Some (p, r)" "level t \<noteq> AWS_MEMTRACE_NONE"
  shows "s_alloc_tracer_untrack t mem p =
     Inr (t\<lparr>allocated := allocated t - size_bytes r, allocs := AList.delete p (allocs t)\<rparr>,
          mem\<lparr>released := released mem @ [(Default_Allocator, owner r)]\<rparr>)"
  using assms
  by (simp add: s_alloc_tracer_untrack_def aws_hash_table_find_def AWS_OP_SUCCESS_def Let_def
      aws_hash_table_remove_element_def s_destroy_alloc_def aws_default_allocator_def)

lemma w128:
  assumes a: "7 < LENGTH('w::len)" shows "(128::'w word) \<noteq> 0"
proof
  assume z: "(128::'w word) = 0"
  have e: "(2::'w word) ^ 7 = 128" by simp
  have "((2::'w word) ^ 7 = 0) = (LENGTH('w) \<le> 7)" by (rule exp_eq_zero_iff)
  with z e have "LENGTH('w) \<le> 7" by (simp only:)
  with a show False by arith
qed

lemmas tracer_defs =
  aws_mem_tracer_new_def s_alloc_tracer_init_def aws_backtrace_def aws_hash_table_init_def
  aws_default_allocator_def deep_env_def shallow_env_def heap0_def bump_allocator_def
  exhausted_allocator_def tracer_bytes_def tracer_stacks_def block16_def
  tracer_one_live_def heap1_def tracer_supplied_def tracer_supplied_stacks_def

lemmas call_defs =
  s_trace_mem_acquire_def s_trace_mem_release_def s_trace_mem_realloc_def s_trace_mem_calloc_def
  s_alloc_tracer_track_def s_alloc_tracer_untrack_def track_stack_def memcpy_frames_def
  sizeof_ptr_def FRAMES_TO_SKIP_def aws_hash_table_find_def aws_hash_table_put_def
  aws_hash_table_create_def aws_hash_table_remove_element_def aws_hash_table_get_entry_count_def
  aws_mem_acquire_def aws_mem_release_def aws_mem_realloc_def aws_mem_calloc_def
  s_destroy_alloc_def s_destroy_stacktrace_def AWS_OP_SUCCESS_def AWS_OP_ERR_def
  aws_mem_tracer_bytes_def aws_mem_tracer_count_def

lemma delete_sum:
  fixes f :: "'k \<times> 'v \<Rightarrow> 'a::ab_group_add"
  assumes "distinct (map fst tbl)" "List.find (\<lambda>e. fst e = p) tbl = Some (p, r)"
  shows "sum_list (map f (AList.delete p tbl)) = sum_list (map f tbl) - f (p, r)"
  using assms
proof (induction tbl)
  case Nil
  then show ?case by simp
next
  case (Cons e tbl)
  show ?case
  proof (cases "fst e = p")
    case True
    with Cons.prems have "e = (p, r)" "p \<notin> fst ` set tbl" by auto
    then show ?thesis by (simp add: AList.delete_id)
  next
    case False
    with Cons have "sum_list (map f (AList.delete p tbl)) = sum_list (map f tbl) - f (p, r)"
      by simp
    with False show ?thesis by (cases e) (simp add: algebra_simps)
  qed
qed

lemma delete_length:
  assumes "distinct (map fst tbl)" "List.find (\<lambda>e. fst e = p) tbl = Some (p, r)"
  shows "Suc (length (AList.delete p tbl)) = length tbl"
  using assms
proof (induction tbl)
  case Nil
  then show ?case by simp
next
  case (Cons e tbl)
  show ?case
  proof (cases "fst e = p")
    case True
    with Cons.prems have "p \<notin> fst ` set tbl" by auto
    with True show ?thesis by (cases e) (simp add: AList.delete_id)
  next
    case False
    with Cons show ?thesis by (cases e) simp
  qed
qed

lemma find_delete_other:
  "a \<noteq> p \<Longrightarrow> List.find (\<lambda>e. fst e = a) (AList.delete p tbl) = List.find (\<lambda>e. fst e = a) tbl"
  by (induction tbl) auto

lemma filter_absent: "k \<notin> set (map fst tbl) \<Longrightarrow> filter (\<lambda>e. fst e = k) tbl = []"
  by (induction tbl) auto

lemma find_Some_key: "List.find (\<lambda>e. fst e = p) tbl = Some e \<Longrightarrow> fst e = p"
  by (induction tbl) (auto split: if_splits)

lemma inv_new: "tracer_inv (aws_mem_tracer_new env a b lvl fps)"
  by (simp add: tracer_inv_def aws_mem_tracer_new_def s_alloc_tracer_init_def Let_def
      aws_hash_table_init_def)

lemma inv_track:
  assumes "s_alloc_tracer_track env t p n = Inr t'" "tracer_inv t"
  shows "tracer_inv t'"
proof (cases "level t = AWS_MEMTRACE_NONE")
  case True
  with assms show ?thesis by (simp add: track_NONE)
next
  case False
  from track_Inr [OF assms(1) False] assms(2) show ?thesis
    by (auto simp: tracer_inv_def)
qed

lemma untrack_cases:
  assumes "s_alloc_tracer_untrack t mem p = Inr (t', mem')"
  shows "(t' = t \<and> mem' = mem) \<or>
     (level t \<noteq> AWS_MEMTRACE_NONE \<and> (\<exists>r. List.find (\<lambda>e. fst e = p) (allocs t) = Some (p, r)
        \<and> t' = t\<lparr>allocated := allocated t - size_bytes r, allocs := AList.delete p (allocs t)\<rparr>
        \<and> mem' = mem\<lparr>released := released mem @ [(Default_Allocator, owner r)]\<rparr>))"
proof (cases "level t = AWS_MEMTRACE_NONE")
  case True
  with assms show ?thesis by (simp add: s_alloc_tracer_untrack_def)
next
  case False
  show ?thesis
  proof (cases "List.find (\<lambda>e. fst e = p) (allocs t)")
    case None
    with assms False show ?thesis
      by (simp add: s_alloc_tracer_untrack_def aws_hash_table_find_def AWS_OP_SUCCESS_def)
  next
    case (Some e)
    then have "fst e = p" by (rule find_Some_key)
    then obtain r where e: "e = (p, r)" by (cases e) auto
    from untrack_present [OF Some [unfolded e] False, of mem] assms False Some e
    show ?thesis by auto
  qed
qed

lemma inv_untrack:
  assumes "s_alloc_tracer_untrack t mem p = Inr (t', mem')" "tracer_inv t"
  shows "tracer_inv t'"
  using untrack_cases [OF assms(1)] assms(2)
  by (auto simp: tracer_inv_def delete_sum AList.distinct_delete)

lemma inv_call:
  assumes "trace_call env t mem c = Inr (r, t', mem')" "tracer_inv t"
  shows "tracer_inv t'"
proof (cases c)
  case (Acquire n)
  with assms show ?thesis
    by (auto simp: s_trace_mem_acquire_def split: sum.splits prod.splits dest: inv_track)
next
  case (Calloc k n)
  with assms show ?thesis
    by (auto simp: s_trace_mem_calloc_def split: sum.splits prod.splits dest: inv_track)
next
  case (Release p)
  with assms show ?thesis
    by (auto simp: s_trace_mem_release_def split: sum.splits prod.splits dest: inv_untrack)
next
  case (Realloc p old new)
  with assms show ?thesis
    by (auto simp: s_trace_mem_realloc_def split: sum.splits prod.splits if_splits
        dest!: inv_untrack dest: inv_track)
qed

lemma inv_calls:
  assumes "trace_calls t mem cs = Inr (rs, t', mem')" "tracer_inv t"
  shows "tracer_inv t'"
  using assms
proof (induction cs arbitrary: t mem rs)
  case Nil
  then show ?case by simp
next
  case (Cons ec cs)
  obtain env c where ec: "ec = (env, c)" by (cases ec)
  from Cons.prems(1) ec obtain r t1 mem1 rs1 where
    1: "trace_call env t mem c = Inr (r, t1, mem1)" and
    2: "trace_calls t1 mem1 cs = Inr (rs1, t', mem')"
    by (auto split: sum.splits prod.splits)
  from inv_call [OF 1 Cons.prems(2)] have "tracer_inv t1" .
  from Cons.IH [OF 2 this] show ?case .
qed

lemma none_call:
  assumes "level t = AWS_MEMTRACE_NONE"
  shows "trace_call env t mem c =
     (case inner_call (allocator t) (inner mem) c of
        (r, u) \<Rightarrow> if r = Realloc_Failed then Inl Fatal_Assert else Inr (r, t, mem\<lparr>inner := u\<rparr>))"
  using assms
  by (cases c)
     (auto simp: s_trace_mem_acquire_def s_trace_mem_calloc_def s_trace_mem_release_def
        s_trace_mem_realloc_def s_alloc_tracer_track_def s_alloc_tracer_untrack_def
        split: prod.splits)

lemma none_calls:
  assumes "level t = AWS_MEMTRACE_NONE"
  shows "trace_calls t mem cs =
     (if Realloc_Failed \<in> set (fst (inner_calls (allocator t) (inner mem) (map snd cs)))
      then Inl Fatal_Assert
      else Inr (fst (inner_calls (allocator t) (inner mem) (map snd cs)), t,
                mem\<lparr>inner := snd (inner_calls (allocator t) (inner mem) (map snd cs))\<rparr>))"
proof (induction cs arbitrary: mem)
  case Nil
  show ?case by simp
next
  case (Cons ec cs)
  obtain env c where ec: "ec = (env, c)" by (cases ec)
  obtain r u where ic: "inner_call (allocator t) (inner mem) c = (r, u)"
    by (cases "inner_call (allocator t) (inner mem) c")
  obtain rs u2 where ics: "inner_calls (allocator t) u (map snd cs) = (rs, u2)"
    by (cases "inner_calls (allocator t) u (map snd cs)")
  show ?case
  proof (cases "r = Realloc_Failed")
    case True
    with ec ic ics show ?thesis by (simp add: none_call [OF assms])
  next
    case False
    with ec ic ics Cons.IH [of "mem\<lparr>inner := u\<rparr>"] show ?thesis
      by (simp add: none_call [OF assms])
  qed
qed

text \<open>
  When track returns: the address is not yet a key, and at level STACKS the walker does not
  deliver exactly one frame (the budget of frames is small against the range of \<open>size_t\<close>,
  as it is for every constructed tracer).
\<close>

lemma unat_mult_le: "unat ((a::'w::len word) * b) \<le> unat a * unat b"
  by (simp add: unat_word_ariths)

lemma track_stack_returns:
  fixes tracer :: "('w::len word, 'u) alloc_tracer"
  assumes n1: "length (aws_backtrace env (of_nat FRAMES_TO_SKIP + frames_per_stack tracer)) \<noteq> 1"
    and room: "unat (frames_per_stack tracer) + 2 < 2 ^ LENGTH('w)"
  shows "\<exists>t' a'. track_stack env tracer alloc = Inr (t', a')"
proof -
  define fs where "fs = aws_backtrace env (of_nat FRAMES_TO_SKIP + frames_per_stack tracer)"
  define n where "n = length fs"
  have lt2: "(2::nat) < 2 ^ LENGTH('w)" using room by arith
  have two: "unat (2 :: 'w word) = 2"
  proof (rule of_nat_inverse)
    show "word_of_nat 2 = (2 :: 'w word)" by simp
    show "(2::nat) < 2 ^ LENGTH('w)" by (fact lt2)
  qed
  then have "unat (2 :: 'w word) + unat (frames_per_stack tracer) < 2 ^ LENGTH('w)"
    using room by simp
  then have "unat (2 + frames_per_stack tracer) = unat (2 :: 'w word) + unat (frames_per_stack tracer)"
    by (simp only: unat_add_lem)
  with two have mx: "unat (of_nat FRAMES_TO_SKIP + frames_per_stack tracer) = 2 + unat (frames_per_stack tracer)"
    by (simp add: FRAMES_TO_SKIP_def)
  have nle: "n \<le> 2 + unat (frames_per_stack tracer)"
    unfolding n_def fs_def aws_backtrace_def using mx by simp
  then have nlt: "n < 2 ^ LENGTH('w)" using room by simp
  then have un: "unat (of_nat n :: 'w word) = n" by (simp add: unat_of_nat)
  show ?thesis
  proof (cases "n = 0")
    case True
    then show ?thesis
      unfolding n_def fs_def by (simp add: track_stack_def Let_def)
  next
    case False
    have "n \<noteq> 1" using n1 by (simp add: n_def fs_def)
    with False have n2: "2 \<le> n" by arith
    have nz: "(of_nat n :: 'w word) \<noteq> 0" using un False by force
    have "(2::'w word) \<le> of_nat n" using un n2 two
      by (simp only: word_le_nat_alt)
    then have "unat (of_nat n - 2 :: 'w word) = unat (of_nat n :: 'w word) - unat (2 :: 'w word)"
      by (rule unat_sub)
    with un two have "unat (of_nat n - 2 :: 'w word) = n - 2"
      by (simp only:)
    then have "unat ((of_nat n - 2 :: 'w word) * sizeof_ptr) \<le> (n - 2) * unat (sizeof_ptr :: 'w word)"
      using unat_mult_le [of "of_nat n - 2 :: 'w word" sizeof_ptr] by simp
    also have "\<dots> \<le> unat (frames_per_stack tracer) * unat (sizeof_ptr :: 'w word)"
    proof (rule mult_le_mono1)
      show "n - 2 \<le> unat (frames_per_stack tracer)" using nle by arith
    qed
    finally have ok: "unat ((of_nat n - 2 :: 'w word) * sizeof_ptr)
        \<le> unat (frames_per_stack tracer) * unat (sizeof_ptr :: 'w word)" .
    show ?thesis
      using nz ok unfolding n_def fs_def
      by (simp add: track_stack_def Let_def aws_hash_table_create_def memcpy_frames_def
          FRAMES_TO_SKIP_def AWS_OP_SUCCESS_def)
  qed
qed

lemma track_returns:
  fixes tracer :: "('w::len word, 'u) alloc_tracer"
  assumes fresh: "p \<notin> set (map fst (allocs tracer))"
    and n1: "level tracer = AWS_MEMTRACE_STACKS \<longrightarrow>
       length (aws_backtrace env (of_nat FRAMES_TO_SKIP + frames_per_stack tracer)) \<noteq> 1"
    and room: "level tracer = AWS_MEMTRACE_STACKS \<longrightarrow>
       unat (frames_per_stack tracer) + 2 < 2 ^ LENGTH('w)"
  shows "\<exists>t'. s_alloc_tracer_track env tracer p n = Inr t'"
proof (cases "level tracer = AWS_MEMTRACE_STACKS")
  case True
  let ?t1 = "tracer\<lparr>allocated := allocated tracer + n\<rparr>"
  let ?a = "\<lparr>size_bytes = n, time = wall_clock env, stack = 0, owner = system_allocator tracer\<rparr>"
  from True n1 room track_stack_returns [of env ?t1 ?a]
  obtain t2 a2 where ts: "track_stack env ?t1 ?a = Inr (t2, a2)" by auto
  from track_stack_keeps [OF ts] fresh have "p \<notin> set (map fst (allocs t2))" by simp
  with True ts show ?thesis
    by (simp add: s_alloc_tracer_track_def Let_def aws_hash_table_put_def AWS_OP_SUCCESS_def)
next
  case False
  with fresh show ?thesis
    by (simp add: s_alloc_tracer_track_def Let_def aws_hash_table_put_def AWS_OP_SUCCESS_def)
qed

text \<open>What a zeroed-acquire that returned has recorded.\<close>

lemma calloc_returned:
  fixes k n :: "'w::len word"
  assumes "level tracer \<noteq> AWS_MEMTRACE_NONE"
    and "s_trace_mem_calloc env tracer mem k n = Inr (p, t1, mem1)"
  shows "p = fst (aws_mem_calloc (allocator tracer) (inner mem) k n)
     \<and> (\<exists>r. snd (aws_hash_table_find (allocs t1) p) = Some (p, r) \<and> size_bytes r = k * n)
     \<and> aws_mem_tracer_bytes t1 = aws_mem_tracer_bytes tracer + k * n
     \<and> unat (k * n) = (unat k * unat n) mod 2 ^ LENGTH('w)"
proof -
  obtain q u1 where c: "aws_mem_calloc (allocator tracer) (inner mem) k n = (q, u1)"
    by (cases "aws_mem_calloc (allocator tracer) (inner mem) k n")
  from assms(2) c have t: "s_alloc_tracer_track env tracer q (k * n) = Inr t1" and pq: "p = q"
    by (auto simp: s_trace_mem_calloc_def split: sum.splits)
  from track_Inr [OF t assms(1)] obtain r where
    r: "allocs t1 = (q, r) # allocs tracer" "size_bytes r = k * n"
    and a: "allocated t1 = allocated tracer + k * n" by blast
  show ?thesis
    using c pq r a
    by (simp add: aws_hash_table_find_def aws_mem_tracer_bytes_def unat_word_ariths)
qed

section \<open>The claims\<close>

text \<open>
  Claim C1. After every sequence of acquire, zeroed-acquire, release and reallocate calls
  through the facade of a freshly constructed tracer that runs to its end, the live-bytes
  query returns the sum (in \<open>size_t\<close> arithmetic) of the sizes recorded in the allocation
  map, and the live-count query returns the number of addresses recorded there.
\<close>

theorem live_bytes_and_count_invariant:
  assumes "trace_calls (aws_mem_tracer_new env0 a b lvl fps) mem cs = Inr (rs, t, mem')"
  shows "aws_mem_tracer_bytes t = sum_list (map (\<lambda>e. size_bytes (snd e)) (allocs t))
     \<and> aws_mem_tracer_count t = card (set (map fst (allocs t)))"
proof -
  from inv_calls [OF assms inv_new] have i: "tracer_inv t" .
  then have "distinct (map fst (allocs t))" by (simp add: tracer_inv_def)
  then have "card (set (map fst (allocs t))) = length (map fst (allocs t))"
    by (rule distinct_card)
  then have "aws_mem_tracer_count t = card (set (map fst (allocs t)))"
    by (simp add: aws_mem_tracer_count_def aws_hash_table_get_entry_count_def)
  with i show ?thesis
    by (simp add: tracer_inv_def aws_mem_tracer_bytes_def)
qed

theorem live_bytes_and_count_invariant_witness:
  "trace_calls (aws_mem_tracer_new deep_env bump_allocator None AWS_MEMTRACE_BYTES 0) heap0
      [(deep_env, Acquire 100), (deep_env, Acquire 250), (deep_env, Release 0x10000)]
     = Inr ([Address 0x10000, Address 0x10064, Done],
            tracer_bytes\<lparr>allocated := 250,
              allocs := [(0x10064, \<lparr>size_bytes = 250, time = 1700000000, stack = 0,
                                     owner = Default_Allocator\<rparr>)]\<rparr>,
            \<lparr>inner = 0x1015E, released = [(Default_Allocator, Default_Allocator)]\<rparr>)
   \<and> aws_mem_tracer_bytes (tracer_bytes\<lparr>allocated := 250,
              allocs := [(0x10064, \<lparr>size_bytes = 250, time = 1700000000, stack = 0,
                                     owner = Default_Allocator\<rparr>)]\<rparr>) = 250
   \<and> aws_mem_tracer_count (tracer_bytes\<lparr>allocated := 250,
              allocs := [(0x10064, \<lparr>size_bytes = 250, time = 1700000000, stack = 0,
                                     owner = Default_Allocator\<rparr>)]\<rparr>) = 1"
proof -
  have run: "trace_calls (aws_mem_tracer_new deep_env bump_allocator None AWS_MEMTRACE_BYTES 0) heap0
      [(deep_env, Acquire 100), (deep_env, Acquire 250), (deep_env, Release 0x10000)]
     = Inr ([Address 0x10000, Address 0x10064, Done],
            tracer_bytes\<lparr>allocated := 250,
              allocs := [(0x10064, \<lparr>size_bytes = 250, time = 1700000000, stack = 0,
                                     owner = Default_Allocator\<rparr>)]\<rparr>,
            \<lparr>inner = 0x1015E, released = [(Default_Allocator, Default_Allocator)]\<rparr>)"
    by (simp add: tracer_defs call_defs Let_def)
  show ?thesis
    using run live_bytes_and_count_invariant [OF run] by simp
qed

text \<open>
  Claim C2. If \<open>p\<close> is live with recorded size \<open>old\<close> and reallocate(p, old, new) returns
  \<open>q\<close>, then live-bytes has changed by exactly \<open>new - old\<close>, whether or not \<open>q = p\<close>, and the
  map holds exactly one entry for \<open>q\<close>, of size \<open>new\<close>, in place of the entry for \<open>p\<close>: no
  entry for \<open>p\<close> when it moved, every other entry untouched, the same number of entries.
\<close>

theorem realloc_conservation:
  assumes lv: "level tracer \<noteq> AWS_MEMTRACE_NONE"
    and live: "snd (aws_hash_table_find (allocs tracer) p) = Some (p, r)"
    and old: "size_bytes r = old_size"
    and dist: "distinct (map fst (allocs tracer))"
    and ret: "s_trace_mem_realloc env tracer mem p old_size new_size = Inr (q, t2, mem2)"
  shows "aws_mem_tracer_bytes t2 = aws_mem_tracer_bytes tracer + (new_size - old_size)
     \<and> (\<exists>r'. snd (aws_hash_table_find (allocs t2) q) = Some (q, r') \<and> size_bytes r' = new_size)
     \<and> length (filter (\<lambda>e. fst e = q) (allocs t2)) = 1
     \<and> (q \<noteq> p \<longrightarrow> snd (aws_hash_table_find (allocs t2) p) = None)
     \<and> (\<forall>a. a \<noteq> p \<and> a \<noteq> q \<longrightarrow>
            snd (aws_hash_table_find (allocs t2) a) = snd (aws_hash_table_find (allocs tracer) a))
     \<and> aws_mem_tracer_count t2 = aws_mem_tracer_count tracer"
proof -
  from live have f: "List.find (\<lambda>e. fst e = p) (allocs tracer) = Some (p, r)"
    by (simp add: aws_hash_table_find_def)
  define t1 where "t1 = tracer\<lparr>allocated := allocated tracer - size_bytes r,
                                allocs := AList.delete p (allocs tracer)\<rparr>"
  from ret untrack_present [OF f lv] have tr: "s_alloc_tracer_track env t1 q new_size = Inr t2"
    by (auto simp: s_trace_mem_realloc_def t1_def split: prod.splits sum.splits if_splits)
  have lv1: "level t1 \<noteq> AWS_MEMTRACE_NONE" using lv by (simp add: t1_def)
  from track_Inr [OF tr lv1] obtain r' where
    fresh: "q \<notin> set (map fst (AList.delete p (allocs tracer)))"
    and al: "allocs t2 = (q, r') # AList.delete p (allocs tracer)"
    and sz: "size_bytes r' = new_size"
    and bt: "allocated t2 = allocated tracer - size_bytes r + new_size"
    by (auto simp: t1_def)
  have 1: "aws_mem_tracer_bytes t2 = aws_mem_tracer_bytes tracer + (new_size - old_size)"
    using bt old by (simp add: aws_mem_tracer_bytes_def)
  have 2: "\<exists>r'. snd (aws_hash_table_find (allocs t2) q) = Some (q, r') \<and> size_bytes r' = new_size"
    using al sz by (simp add: aws_hash_table_find_def)
  have 3: "length (filter (\<lambda>e. fst e = q) (allocs t2)) = 1"
    using al filter_absent [OF fresh] by simp
  have "p \<notin> set (map fst (AList.delete p (allocs tracer)))"
    using AList.delete_notin_dom [of p "allocs tracer"] by simp
  then have 4: "q \<noteq> p \<longrightarrow> snd (aws_hash_table_find (allocs t2) p) = None"
    using al by (simp add: aws_hash_table_find_def find_absent)
  have 5: "\<forall>a. a \<noteq> p \<and> a \<noteq> q \<longrightarrow>
            snd (aws_hash_table_find (allocs t2) a) = snd (aws_hash_table_find (allocs tracer) a)"
    using al by (simp add: aws_hash_table_find_def find_delete_other)
  have 6: "aws_mem_tracer_count t2 = aws_mem_tracer_count tracer"
    using al delete_length [OF dist f]
    by (simp add: aws_mem_tracer_count_def aws_hash_table_get_entry_count_def)
  from 1 2 3 4 5 6 show ?thesis by blast
qed

theorem realloc_conservation_witness:
  "level tracer_one_live \<noteq> AWS_MEMTRACE_NONE
   \<and> snd (aws_hash_table_find (allocs tracer_one_live) 0x10000) = Some (0x10000, block16)
   \<and> size_bytes block16 = 16
   \<and> distinct (map fst (allocs tracer_one_live))
   \<and> s_trace_mem_realloc deep_env tracer_one_live heap1 0x10000 16 64
       = Inr (0x10010,
              tracer_bytes\<lparr>allocated := 64, allocs := [(0x10010, block16\<lparr>size_bytes := 64\<rparr>)]\<rparr>,
              \<lparr>inner = 0x10050, released = [(Default_Allocator, Default_Allocator)]\<rparr>)
   \<and> aws_mem_tracer_bytes
         (tracer_bytes\<lparr>allocated := 64, allocs := [(0x10010, block16\<lparr>size_bytes := 64\<rparr>)]\<rparr>)
       = aws_mem_tracer_bytes tracer_one_live + (64 - 16)
   \<and> s_trace_mem_realloc deep_env tracer_one_live heap1 0x10000 16 8
       = Inr (0x10000,
              tracer_bytes\<lparr>allocated := 8, allocs := [(0x10000, block16\<lparr>size_bytes := 8\<rparr>)]\<rparr>,
              \<lparr>inner = 0x10010, released = [(Default_Allocator, Default_Allocator)]\<rparr>)
   \<and> aws_mem_tracer_bytes
         (tracer_bytes\<lparr>allocated := 8, allocs := [(0x10000, block16\<lparr>size_bytes := 8\<rparr>)]\<rparr>)
       = aws_mem_tracer_bytes tracer_one_live + (8 - 16)"
proof -
  have lv: "level tracer_one_live \<noteq> AWS_MEMTRACE_NONE"
    by (simp add: tracer_defs)
  have live: "snd (aws_hash_table_find (allocs tracer_one_live) 0x10000) = Some (0x10000, block16)"
    by (simp add: tracer_defs call_defs)
  have old: "size_bytes block16 = 16"
    by (simp add: block16_def)
  have dist: "distinct (map fst (allocs tracer_one_live))"
    by (simp add: tracer_defs)
  have moved: "s_trace_mem_realloc deep_env tracer_one_live heap1 0x10000 16 64
       = Inr (0x10010,
              tracer_bytes\<lparr>allocated := 64, allocs := [(0x10010, block16\<lparr>size_bytes := 64\<rparr>)]\<rparr>,
              \<lparr>inner = 0x10050, released = [(Default_Allocator, Default_Allocator)]\<rparr>)"
    by (simp add: tracer_defs call_defs Let_def)
  have in_place: "s_trace_mem_realloc deep_env tracer_one_live heap1 0x10000 16 8
       = Inr (0x10000,
              tracer_bytes\<lparr>allocated := 8, allocs := [(0x10000, block16\<lparr>size_bytes := 8\<rparr>)]\<rparr>,
              \<lparr>inner = 0x10010, released = [(Default_Allocator, Default_Allocator)]\<rparr>)"
    by (simp add: tracer_defs call_defs Let_def)
  show ?thesis
    using lv live old dist moved in_place
      realloc_conservation [OF lv live old dist moved]
      realloc_conservation [OF lv live old dist in_place]
    by simp
qed

text \<open>
  Claim C3. A track call whose address is already a key of the allocation map does not
  complete: the call aborts. At level BYTES the abort is the fatal assertion around the
  insertion.
\<close>

theorem track_duplicate_key_is_fatal:
  assumes "level tracer \<noteq> AWS_MEMTRACE_NONE" and "p \<in> set (map fst (allocs tracer))"
  shows "(\<exists>e. s_alloc_tracer_track env tracer p n = Inl e)
     \<and> (level tracer = AWS_MEMTRACE_BYTES \<longrightarrow> s_alloc_tracer_track env tracer p n = Inl Fatal_Assert)"
proof -
  have "s_alloc_tracer_track env tracer p n \<noteq> Inr t'" for t'
    using track_Inr [of env tracer p n t'] assms by blast
  then have 1: "\<exists>e. s_alloc_tracer_track env tracer p n = Inl e"
    by (cases "s_alloc_tracer_track env tracer p n") auto
  have 2: "s_alloc_tracer_track env tracer p n = Inl Fatal_Assert" if "level tracer = AWS_MEMTRACE_BYTES"
    using that assms(2)
    by (simp add: s_alloc_tracer_track_def Let_def aws_hash_table_put_def AWS_OP_SUCCESS_def AWS_OP_ERR_def)
  from 1 2 show ?thesis by blast
qed

theorem track_duplicate_key_is_fatal_witness:
  "level tracer_one_live \<noteq> AWS_MEMTRACE_NONE
   \<and> 0x10000 \<in> set (map fst (allocs tracer_one_live))
   \<and> level tracer_one_live = AWS_MEMTRACE_BYTES
   \<and> s_alloc_tracer_track deep_env tracer_one_live 0x10000 32 = Inl Fatal_Assert"
proof -
  have lv: "level tracer_one_live \<noteq> AWS_MEMTRACE_NONE"
    and lb: "level tracer_one_live = AWS_MEMTRACE_BYTES"
    by (simp_all add: tracer_defs)
  have dup: "0x10000 \<in> set (map fst (allocs tracer_one_live))"
    by (simp add: tracer_defs)
  show ?thesis
    using lv lb dup track_duplicate_key_is_fatal [OF lv dup, of deep_env 32] by simp
qed

text \<open>
  Claim C5. Untrack and release of an address that is not a key of the allocation map
  return normally and leave the tracer (live bytes, allocation map, stack registry)
  unchanged; release still hands the address to the inner allocator.
\<close>

theorem untrack_unknown_address_is_noop:
  assumes "p \<notin> set (map fst (allocs tracer))"
  shows "s_alloc_tracer_untrack tracer mem p = Inr (tracer, mem)
     \<and> s_trace_mem_release tracer mem p =
         Inr (tracer, mem\<lparr>inner := aws_mem_release (allocator tracer) (inner mem) p\<rparr>)"
  using assms by (simp add: s_trace_mem_release_def untrack_absent)

theorem untrack_unknown_address_is_noop_witness:
  "0x42 \<notin> set (map fst (allocs tracer_one_live))
   \<and> s_alloc_tracer_untrack tracer_one_live heap1 0x42 = Inr (tracer_one_live, heap1)
   \<and> s_trace_mem_release tracer_one_live heap1 0x42 = Inr (tracer_one_live, heap1)"
proof -
  have absent: "0x42 \<notin> set (map fst (allocs tracer_one_live))"
    by (simp add: tracer_defs)
  have same: "heap1\<lparr>inner := aws_mem_release (allocator tracer_one_live) (inner heap1) 0x42\<rparr> = heap1"
    by (simp add: tracer_defs call_defs Let_def)
  show ?thesis
    using absent same untrack_unknown_address_is_noop [OF absent, of heap1] by simp
qed

text \<open>
  Claim C6, amended. A facade constructed at level NONE aborts on its fatal assertion when
  the inner allocator reports failure for one of the reallocations of the sequence;
  otherwise it returns exactly the results the inner allocator returns for the same
  sequence, leaves the inner allocator in the same state and the tracer as constructed.
  The live-bytes query on that tracer returns 0.
\<close>

theorem none_level_pass_through:
  "trace_calls (aws_mem_tracer_new env0 a b AWS_MEMTRACE_NONE fps) mem cs =
     (if Realloc_Failed \<in> set (fst (inner_calls a (inner mem) (map snd cs)))
      then Inl Fatal_Assert
      else Inr (fst (inner_calls a (inner mem) (map snd cs)),
                aws_mem_tracer_new env0 a b AWS_MEMTRACE_NONE fps,
                mem\<lparr>inner := snd (inner_calls a (inner mem) (map snd cs))\<rparr>))
   \<and> aws_mem_tracer_bytes (aws_mem_tracer_new env0 a b AWS_MEMTRACE_NONE fps) = 0"
proof -
  have l: "level (aws_mem_tracer_new env0 a b AWS_MEMTRACE_NONE fps) = AWS_MEMTRACE_NONE"
    and al: "allocator (aws_mem_tracer_new env0 a b AWS_MEMTRACE_NONE fps) = a"
    and z: "allocated (aws_mem_tracer_new env0 a b AWS_MEMTRACE_NONE fps) = 0"
    by (simp_all add: aws_mem_tracer_new_def s_alloc_tracer_init_def Let_def)
  show ?thesis
    using none_calls [OF l, of mem cs] z by (simp add: al aws_mem_tracer_bytes_def)
qed

theorem none_level_pass_through_witness:
  "Realloc_Failed \<notin> set (fst (inner_calls bump_allocator (inner heap0)
       (map snd [(deep_env, Acquire 16), (shallow_env, Realloc 0x10000 16 64),
                 (deep_env, Release 0x10010)])))
   \<and> inner_calls bump_allocator (inner heap0)
        [Acquire 16, Realloc 0x10000 16 64, Release 0x10010]
       = ([Address 0x10000, Address 0x10010, Done], 0x10050)
   \<and> trace_calls (aws_mem_tracer_new deep_env bump_allocator None AWS_MEMTRACE_NONE 0) heap0
        [(deep_env, Acquire 16), (shallow_env, Realloc 0x10000 16 64), (deep_env, Release 0x10010)]
       = Inr ([Address 0x10000, Address 0x10010, Done],
              aws_mem_tracer_new deep_env bump_allocator None AWS_MEMTRACE_NONE 0,
              heap0\<lparr>inner := 0x10050\<rparr>)
   \<and> aws_mem_tracer_bytes (aws_mem_tracer_new deep_env bump_allocator None AWS_MEMTRACE_NONE 0) = 0"
proof -
  have u: "inner_calls bump_allocator (inner heap0)
        [Acquire 16, Realloc 0x10000 16 64, Release 0x10010]
       = ([Address 0x10000, Address 0x10010, Done], 0x10050)"
    by (simp add: tracer_defs call_defs)
  show ?thesis
    using u none_level_pass_through [of deep_env bump_allocator None 0 heap0
        "[(deep_env, Acquire 16), (shallow_env, Realloc 0x10000 16 64), (deep_env, Release 0x10010)]"]
    by simp
qed

text \<open>
  Claim C6 as stated fails where the inner allocator reports a failed reallocation: sent
  to the inner allocator the call returns the failure, sent through the facade at level
  NONE it ends in the fatal assertion of \<open>s_trace_mem_realloc\<close>.
\<close>

theorem none_level_pass_through_counterexample:
  "trace_calls (aws_mem_tracer_new shallow_env exhausted_allocator None AWS_MEMTRACE_NONE 0)
      \<lparr>inner = (), released = []\<rparr> [(shallow_env, Realloc 0 16 32)] = Inl Fatal_Assert
   \<and> inner_calls exhausted_allocator () [Realloc (0 :: 64 word) 16 32] = ([Realloc_Failed], ())"
  by (simp add: tracer_defs call_defs Let_def)

text \<open>
  Claim C7. A tracer constructed at level STACKS has a frame budget of 8 when 0 was
  requested, of 128 when more than 128 was requested, and of the requested value when it
  lies between 1 and 128. (\<open>size_t\<close> has at least 8 bits.)
\<close>

theorem frames_per_stack_policy:
  fixes fps :: "'w::len word"
  assumes "level (aws_mem_tracer_new env a b lvl fps) = AWS_MEMTRACE_STACKS" and "7 < LENGTH('w)"
  shows "(fps = 0 \<longrightarrow> frames_per_stack (aws_mem_tracer_new env a b lvl fps) = 8)
     \<and> (128 < fps \<longrightarrow> frames_per_stack (aws_mem_tracer_new env a b lvl fps) = 128)
     \<and> (1 \<le> fps \<and> fps \<le> 128 \<longrightarrow> frames_per_stack (aws_mem_tracer_new env a b lvl fps) = fps)"
  using assms w128[OF assms(2)]
  by (auto simp: aws_mem_tracer_new_def s_alloc_tracer_init_def Let_def split: if_splits)

theorem frames_per_stack_policy_witness:
  "level (aws_mem_tracer_new deep_env bump_allocator None AWS_MEMTRACE_STACKS 0) = AWS_MEMTRACE_STACKS
   \<and> level (aws_mem_tracer_new deep_env bump_allocator None AWS_MEMTRACE_STACKS 1000) = AWS_MEMTRACE_STACKS
   \<and> level (aws_mem_tracer_new deep_env bump_allocator None AWS_MEMTRACE_STACKS 5) = AWS_MEMTRACE_STACKS
   \<and> 7 < LENGTH(64) \<and> (128::64 word) < 1000 \<and> (1::64 word) \<le> 5 \<and> (5::64 word) \<le> 128
   \<and> frames_per_stack (aws_mem_tracer_new deep_env bump_allocator None AWS_MEMTRACE_STACKS 0) = 8
   \<and> frames_per_stack (aws_mem_tracer_new deep_env bump_allocator None AWS_MEMTRACE_STACKS 1000) = 128
   \<and> frames_per_stack (aws_mem_tracer_new deep_env bump_allocator None AWS_MEMTRACE_STACKS 5) = 5"
proof -
  have l0: "level (aws_mem_tracer_new deep_env bump_allocator None AWS_MEMTRACE_STACKS 0) = AWS_MEMTRACE_STACKS"
    by (simp add: tracer_defs)
  have l1: "level (aws_mem_tracer_new deep_env bump_allocator None AWS_MEMTRACE_STACKS 1000) = AWS_MEMTRACE_STACKS"
    by (simp add: tracer_defs)
  have l2: "level (aws_mem_tracer_new deep_env bump_allocator None AWS_MEMTRACE_STACKS 5) = AWS_MEMTRACE_STACKS"
    by (simp add: tracer_defs)
  have w: "7 < LENGTH(64)" by simp
  show ?thesis
    using l0 l1 l2 w frames_per_stack_policy [OF l0 w] frames_per_stack_policy [OF l1 w]
      frames_per_stack_policy [OF l2 w]
    by simp
qed

text \<open>
  Claim C8. At level BYTES or STACKS, an acquire that returns a fresh address followed by
  the release of that address returns, and leaves live-bytes (and the allocation map) as
  they were before the acquire.
\<close>

theorem acquire_release_restores_live_bytes:
  assumes "level tracer \<noteq> AWS_MEMTRACE_NONE"
    and "s_trace_mem_acquire env tracer mem n = Inr (p, t1, mem1)"
    and "p \<notin> set (map fst (allocs tracer))"
  shows "\<exists>t2 mem2. s_trace_mem_release t1 mem1 p = Inr (t2, mem2)
     \<and> aws_mem_tracer_bytes t2 = aws_mem_tracer_bytes tracer
     \<and> allocs t2 = allocs tracer"
proof -
  from assms(2) have t: "s_alloc_tracer_track env tracer p n = Inr t1"
    by (auto simp: s_trace_mem_acquire_def split: sum.splits prod.splits)
  from track_Inr [OF t assms(1)] obtain r where
    r: "allocs t1 = (p, r) # allocs tracer" "size_bytes r = n"
    and a: "allocated t1 = allocated tracer + n" and l: "level t1 = level tracer" by blast
  have f: "List.find (\<lambda>e. fst e = p) (allocs t1) = Some (p, r)" using r by simp
  have l1: "level t1 \<noteq> AWS_MEMTRACE_NONE" using l assms(1) by simp
  show ?thesis
    using assms(3) r a
    by (simp add: s_trace_mem_release_def untrack_present [OF f l1] aws_mem_tracer_bytes_def)
qed

theorem acquire_release_restores_live_bytes_witness:
  "level tracer_stacks \<noteq> AWS_MEMTRACE_NONE
   \<and> s_trace_mem_acquire deep_env tracer_stacks heap0 32
       = Inr (0x10000,
              tracer_stacks\<lparr>allocated := 32,
                allocs := [(0x10000, \<lparr>size_bytes = 32, time = 1700000000, stack = 0xA001,
                                      owner = Default_Allocator\<rparr>)],
                stacks := [(0xA001, Some \<lparr>depth = 2, frames = [0x3000, 0x4000],
                                          trace_owner = Default_Allocator\<rparr>)]\<rparr>,
              \<lparr>inner = 0x10020, released = []\<rparr>)
   \<and> 0x10000 \<notin> set (map fst (allocs tracer_stacks))
   \<and> s_trace_mem_release
        (tracer_stacks\<lparr>allocated := 32,
                allocs := [(0x10000, \<lparr>size_bytes = 32, time = 1700000000, stack = 0xA001,
                                      owner = Default_Allocator\<rparr>)],
                stacks := [(0xA001, Some \<lparr>depth = 2, frames = [0x3000, 0x4000],
                                          trace_owner = Default_Allocator\<rparr>)]\<rparr>)
        \<lparr>inner = 0x10020, released = []\<rparr> 0x10000
       = Inr (tracer_stacks\<lparr>
                stacks := [(0xA001, Some \<lparr>depth = 2, frames = [0x3000, 0x4000],
                                          trace_owner = Default_Allocator\<rparr>)]\<rparr>,
              \<lparr>inner = 0x10020, released = [(Default_Allocator, Default_Allocator)]\<rparr>)
   \<and> aws_mem_tracer_bytes (tracer_stacks\<lparr>
                stacks := [(0xA001, Some \<lparr>depth = 2, frames = [0x3000, 0x4000],
                                          trace_owner = Default_Allocator\<rparr>)]\<rparr>)
       = aws_mem_tracer_bytes tracer_stacks"
proof -
  have lv: "level tracer_stacks \<noteq> AWS_MEMTRACE_NONE"
    by (simp add: tracer_defs Let_def)
  have acq: "s_trace_mem_acquire deep_env tracer_stacks heap0 32
       = Inr (0x10000,
              tracer_stacks\<lparr>allocated := 32,
                allocs := [(0x10000, \<lparr>size_bytes = 32, time = 1700000000, stack = 0xA001,
                                      owner = Default_Allocator\<rparr>)],
                stacks := [(0xA001, Some \<lparr>depth = 2, frames = [0x3000, 0x4000],
                                          trace_owner = Default_Allocator\<rparr>)]\<rparr>,
              \<lparr>inner = 0x10020, released = []\<rparr>)"
    by (simp add: tracer_defs call_defs Let_def)
  have fresh: "0x10000 \<notin> set (map fst (allocs tracer_stacks))"
    by (simp add: tracer_defs Let_def)
  have rel: "s_trace_mem_release
        (tracer_stacks\<lparr>allocated := 32,
                allocs := [(0x10000, \<lparr>size_bytes = 32, time = 1700000000, stack = 0xA001,
                                      owner = Default_Allocator\<rparr>)],
                stacks := [(0xA001, Some \<lparr>depth = 2, frames = [0x3000, 0x4000],
                                          trace_owner = Default_Allocator\<rparr>)]\<rparr>)
        \<lparr>inner = 0x10020, released = []\<rparr> 0x10000
       = Inr (tracer_stacks\<lparr>
                stacks := [(0xA001, Some \<lparr>depth = 2, frames = [0x3000, 0x4000],
                                          trace_owner = Default_Allocator\<rparr>)]\<rparr>,
              \<lparr>inner = 0x10020, released = [(Default_Allocator, Default_Allocator)]\<rparr>)"
    by (simp add: tracer_defs call_defs Let_def)
  show ?thesis
    using lv acq fresh rel acquire_release_restores_live_bytes [OF lv acq fresh]
    by simp
qed

text \<open>
  Claim C9. At level BYTES or STACKS, zeroed-acquire(k, n) returns the address the inner
  allocator gives, records the product \<open>k * n\<close> as the size of that address and adds it to
  live-bytes; the product is the one of \<open>size_t\<close> arithmetic, the mathematical product
  modulo \<open>2 ^ w\<close>. The call returns whenever the address is not already tracked and, at
  level STACKS, the walker does not deliver exactly one frame (the budget of frames being
  small against the range of \<open>size_t\<close>, as it is for every constructed tracer).
\<close>

theorem calloc_tracks_wrapped_product:
  fixes k n :: "'w::len word"
  assumes lv: "level tracer \<noteq> AWS_MEMTRACE_NONE"
    and fresh: "fst (aws_mem_calloc (allocator tracer) (inner mem) k n)
                  \<notin> set (map fst (allocs tracer))"
    and cap: "level tracer = AWS_MEMTRACE_STACKS \<longrightarrow>
       length (aws_backtrace env (of_nat FRAMES_TO_SKIP + frames_per_stack tracer)) \<noteq> 1"
    and room: "level tracer = AWS_MEMTRACE_STACKS \<longrightarrow>
       unat (frames_per_stack tracer) + 2 < 2 ^ LENGTH('w)"
  shows "\<exists>t1. s_trace_mem_calloc env tracer mem k n
              = Inr (fst (aws_mem_calloc (allocator tracer) (inner mem) k n), t1,
                     mem\<lparr>inner := snd (aws_mem_calloc (allocator tracer) (inner mem) k n)\<rparr>)
     \<and> (\<exists>r. snd (aws_hash_table_find (allocs t1)
                     (fst (aws_mem_calloc (allocator tracer) (inner mem) k n)))
                = Some (fst (aws_mem_calloc (allocator tracer) (inner mem) k n), r)
              \<and> size_bytes r = k * n)
     \<and> aws_mem_tracer_bytes t1 = aws_mem_tracer_bytes tracer + k * n
     \<and> unat (k * n) = (unat k * unat n) mod 2 ^ LENGTH('w)"
proof -
  obtain p u1 where c: "aws_mem_calloc (allocator tracer) (inner mem) k n = (p, u1)"
    by (cases "aws_mem_calloc (allocator tracer) (inner mem) k n")
  from fresh c have "p \<notin> set (map fst (allocs tracer))" by simp
  from track_returns [OF this cap room, of "k * n"]
  obtain t1 where t: "s_alloc_tracer_track env tracer p (k * n) = Inr t1" by blast
  from c t have ret: "s_trace_mem_calloc env tracer mem k n = Inr (p, t1, mem\<lparr>inner := u1\<rparr>)"
    by (simp add: s_trace_mem_calloc_def)
  from calloc_returned [OF lv ret] c ret show ?thesis by auto
qed

theorem calloc_tracks_wrapped_product_witness:
  "level tracer_bytes \<noteq> AWS_MEMTRACE_NONE
   \<and> level tracer_stacks \<noteq> AWS_MEMTRACE_NONE
   \<and> aws_mem_calloc bump_allocator (inner heap0) 0x100000001 0x100000000
       = (0x10000, 0x100010000)
   \<and> 0x10000 \<notin> set (map fst (allocs tracer_bytes))
   \<and> 0x10000 \<notin> set (map fst (allocs tracer_stacks))
   \<and> level tracer_stacks = AWS_MEMTRACE_STACKS
   \<and> length (aws_backtrace deep_env (of_nat FRAMES_TO_SKIP + frames_per_stack tracer_stacks)) = 4
   \<and> unat (frames_per_stack tracer_stacks) + 2 < 2 ^ LENGTH(64)
   \<and> s_trace_mem_calloc deep_env tracer_bytes heap0 0x100000001 0x100000000
       = Inr (0x10000,
              tracer_bytes\<lparr>allocated := 0x100000000,
                allocs := [(0x10000, \<lparr>size_bytes = 0x100000000, time = 1700000000, stack = 0,
                                      owner = Default_Allocator\<rparr>)]\<rparr>,
              \<lparr>inner = 0x100010000, released = []\<rparr>)
   \<and> s_trace_mem_calloc deep_env tracer_stacks heap0 0x100000001 0x100000000
       = Inr (0x10000,
              tracer_stacks\<lparr>allocated := 0x100000000,
                allocs := [(0x10000, \<lparr>size_bytes = 0x100000000, time = 1700000000,
                                      stack = 0xA001, owner = Default_Allocator\<rparr>)],
                stacks := [(0xA001, Some \<lparr>depth = 2, frames = [0x3000, 0x4000],
                                          trace_owner = Default_Allocator\<rparr>)]\<rparr>,
              \<lparr>inner = 0x100010000, released = []\<rparr>)
   \<and> (0x100000001 * 0x100000000 :: 64 word) = 0x100000000
   \<and> unat (0x100000001 * 0x100000000 :: 64 word)
       = (unat (0x100000001 :: 64 word) * unat (0x100000000 :: 64 word)) mod 2 ^ LENGTH(64)
   \<and> unat (0x100000001 :: 64 word) * unat (0x100000000 :: 64 word) > 2 ^ LENGTH(64) - 1"
proof -
  have lb: "level tracer_bytes \<noteq> AWS_MEMTRACE_NONE"
    and ls: "level tracer_stacks \<noteq> AWS_MEMTRACE_NONE"
    and lst: "level tracer_stacks = AWS_MEMTRACE_STACKS"
    by (simp_all add: tracer_defs Let_def)
  have ab: "allocator tracer_bytes = bump_allocator"
    and as: "allocator tracer_stacks = bump_allocator"
    by (simp_all add: tracer_defs Let_def)
  have c: "aws_mem_calloc bump_allocator (inner heap0) 0x100000001 0x100000000
       = (0x10000, 0x100010000)"
    by (simp add: tracer_defs call_defs)
  have fb: "fst (aws_mem_calloc (allocator tracer_bytes) (inner heap0) 0x100000001 0x100000000)
       \<notin> set (map fst (allocs tracer_bytes))"
    by (simp add: tracer_defs call_defs Let_def)
  have fs: "fst (aws_mem_calloc (allocator tracer_stacks) (inner heap0) 0x100000001 0x100000000)
       \<notin> set (map fst (allocs tracer_stacks))"
    by (simp add: tracer_defs call_defs Let_def)
  have depth4: "length (aws_backtrace deep_env
       (of_nat FRAMES_TO_SKIP + frames_per_stack tracer_stacks)) = 4"
    by (simp add: tracer_defs call_defs Let_def)
  have small: "unat (frames_per_stack tracer_stacks) + 2 < 2 ^ LENGTH(64)"
    by (simp add: tracer_defs Let_def)
  have capb: "level tracer_bytes = AWS_MEMTRACE_STACKS \<longrightarrow>
       length (aws_backtrace deep_env (of_nat FRAMES_TO_SKIP + frames_per_stack tracer_bytes)) \<noteq> 1"
    and roomb: "level tracer_bytes = AWS_MEMTRACE_STACKS \<longrightarrow>
       unat (frames_per_stack tracer_bytes) + 2 < 2 ^ LENGTH(64)"
    by (simp_all add: tracer_defs Let_def)
  have caps: "level tracer_stacks = AWS_MEMTRACE_STACKS \<longrightarrow>
       length (aws_backtrace deep_env (of_nat FRAMES_TO_SKIP + frames_per_stack tracer_stacks)) \<noteq> 1"
    using depth4 by simp
  have rooms: "level tracer_stacks = AWS_MEMTRACE_STACKS \<longrightarrow>
       unat (frames_per_stack tracer_stacks) + 2 < 2 ^ LENGTH(64)"
    using small by simp
  have rb: "s_trace_mem_calloc deep_env tracer_bytes heap0 0x100000001 0x100000000
       = Inr (0x10000,
              tracer_bytes\<lparr>allocated := 0x100000000,
                allocs := [(0x10000, \<lparr>size_bytes = 0x100000000, time = 1700000000, stack = 0,
                                      owner = Default_Allocator\<rparr>)]\<rparr>,
              \<lparr>inner = 0x100010000, released = []\<rparr>)"
    by (simp add: tracer_defs call_defs Let_def)
  have rs: "s_trace_mem_calloc deep_env tracer_stacks heap0 0x100000001 0x100000000
       = Inr (0x10000,
              tracer_stacks\<lparr>allocated := 0x100000000,
                allocs := [(0x10000, \<lparr>size_bytes = 0x100000000, time = 1700000000,
                                      stack = 0xA001, owner = Default_Allocator\<rparr>)],
                stacks := [(0xA001, Some \<lparr>depth = 2, frames = [0x3000, 0x4000],
                                          trace_owner = Default_Allocator\<rparr>)]\<rparr>,
              \<lparr>inner = 0x100010000, released = []\<rparr>)"
    by (simp add: tracer_defs call_defs Let_def)
  have fresh_b: "0x10000 \<notin> set (map fst (allocs tracer_bytes))"
    and fresh_s: "0x10000 \<notin> set (map fst (allocs tracer_stacks))"
    by (simp_all add: tracer_defs Let_def)
  show ?thesis
    using lb ls lst c fresh_b fresh_s depth4 small rb rs
      calloc_tracks_wrapped_product [OF lb fb capb roomb]
      calloc_tracks_wrapped_product [OF ls fs caps rooms]
    by simp
qed

text \<open>
  Claim C4 fails on the code. With a bookkeeping allocator that is not the process
  default, the allocation record is obtained from that allocator by the track of an
  acquire and released through the default allocator by the untrack of the release; at
  teardown the same happens to the remaining allocation record and to the stack record.
\<close>

theorem records_released_through_default_allocator:
  "s_trace_mem_acquire deep_env tracer_supplied heap0 16
     = Inr (0x10000,
            tracer_supplied\<lparr>allocated := 16,
              allocs := [(0x10000, block16\<lparr>owner := Supplied_Allocator 1\<rparr>)]\<rparr>,
            heap1)
   \<and> s_trace_mem_release
        (tracer_supplied\<lparr>allocated := 16,
              allocs := [(0x10000, block16\<lparr>owner := Supplied_Allocator 1\<rparr>)]\<rparr>)
        heap1 0x10000
     = Inr (tracer_supplied,
            \<lparr>inner = 0x10010, released = [(Default_Allocator, Supplied_Allocator 1)]\<rparr>)
   \<and> s_trace_mem_acquire deep_env tracer_supplied_stacks heap0 16
     = Inr (0x10000,
            tracer_supplied_stacks\<lparr>allocated := 16,
              allocs := [(0x10000, block16\<lparr>stack := 0xA001, owner := Supplied_Allocator 1\<rparr>)],
              stacks := [(0xA001, Some \<lparr>depth = 2, frames = [0x3000, 0x4000],
                                        trace_owner = Supplied_Allocator 1\<rparr>)]\<rparr>,
            heap1)
   \<and> snd (aws_mem_tracer_destroy
        (tracer_supplied_stacks\<lparr>allocated := 16,
              allocs := [(0x10000, block16\<lparr>stack := 0xA001, owner := Supplied_Allocator 1\<rparr>)],
              stacks := [(0xA001, Some \<lparr>depth = 2, frames = [0x3000, 0x4000],
                                        trace_owner = Supplied_Allocator 1\<rparr>)]\<rparr>)
        heap1)
     = \<lparr>inner = 0x10010,
         released = [(Default_Allocator, Supplied_Allocator 1),
                     (Default_Allocator, Supplied_Allocator 1)]\<rparr>"
  by (simp add: tracer_defs call_defs aws_mem_tracer_destroy_def Let_def)

text \<open>
  Claim C10 fails on the code. At level STACKS with the default budget of 8 frames, a
  walker that delivers a single frame passes the test for a non-empty capture; the
  fingerprint is new to the empty registry, and the depth to store is \<open>1 - 2\<close> in \<open>size_t\<close>
  arithmetic, the largest value of the type, far above the budget. The copy of that many
  frames leaves both buffers.
\<close>

theorem stack_depth_underflows_on_single_frame:
  "level tracer_stacks = AWS_MEMTRACE_STACKS
   \<and> frames_per_stack tracer_stacks = 8
   \<and> stacks tracer_stacks = []
   \<and> aws_backtrace shallow_env (of_nat FRAMES_TO_SKIP + frames_per_stack tracer_stacks) = [0x1000]
   \<and> (of_nat (length [0x1000 :: 64 word]) - of_nat FRAMES_TO_SKIP :: 64 word)
       = 0xFFFFFFFFFFFFFFFF
   \<and> frames_per_stack tracer_stacks
       < (of_nat (length [0x1000 :: 64 word]) - of_nat FRAMES_TO_SKIP :: 64 word)
   \<and> s_alloc_tracer_track shallow_env tracer_stacks 0x10000 16 = Inl Copy_Out_Of_Bounds"
  by (simp add: tracer_defs call_defs Let_def)

end
